theory Spec2Isabelle
  imports Main "HOL-Library.AList"
begin

section \<open>JSON values and the Python operations the gateway applies to them\<close>

text \<open>
  The backend (\<^verbatim>\<open>src/backend/main.py\<close>) handles decoded JSON throughout: request bodies,
  the remote agent's reply, session events and state. A decoded JSON value is a Python
  \<^verbatim>\<open>None\<close>, \<^verbatim>\<open>bool\<close>, \<^verbatim>\<open>int\<close>, \<^verbatim>\<open>str\<close>, \<^verbatim>\<open>list\<close> or \<^verbatim>\<open>dict\<close> with string keys.
  A \<^verbatim>\<open>dict\<close> keeps insertion order and is an association list here; lookups take the
  first entry of a key (a Python dict holds each key once). A \<open>char\<close> stands for one
  character of a Python \<^verbatim>\<open>str\<close>. JSON numbers are Python ints; floating-point numbers are
  not represented.
\<close>

datatype json =
    JNull
  | JBool bool
  | JInt int
  | JStr string
  | JArr "json list"
  | JObj "(string \<times> json) list"

text \<open>Python exceptions, each carrying the text of \<^verbatim>\<open>str(e)\<close>.\<close>

datatype py_error =
    AttributeError string
  | TypeError string
  | KeyError string
  | IndexError string
  | JSONDecodeError string

fun str_of_error :: "py_error \<Rightarrow> string" where
  "str_of_error (AttributeError m) = m"
| "str_of_error (TypeError m) = m"
| "str_of_error (KeyError m) = m"
| "str_of_error (IndexError m) = m"
| "str_of_error (JSONDecodeError m) = m"

text \<open>Sequencing of steps that may raise: the first exception ends the computation.\<close>

fun ebind :: "'e + 'a \<Rightarrow> ('a \<Rightarrow> 'e + 'b) \<Rightarrow> 'e + 'b" where
  "ebind (Inl e) f = Inl e"
| "ebind (Inr v) f = f v"

text \<open>\<^verbatim>\<open>type(x).__name__\<close>, as it appears in Python's error messages.\<close>

fun type_name :: "json \<Rightarrow> string" where
  "type_name JNull = ''NoneType''"
| "type_name (JBool b) = ''bool''"
| "type_name (JInt n) = ''int''"
| "type_name (JStr s) = ''str''"
| "type_name (JArr xs) = ''list''"
| "type_name (JObj kvs) = ''dict''"

text \<open>Truth value of a Python object, as tested by \<^verbatim>\<open>if x\<close> and \<^verbatim>\<open>not x\<close>.\<close>

fun truthy :: "json \<Rightarrow> bool" where
  "truthy JNull = False"
| "truthy (JBool b) = b"
| "truthy (JInt n) = (n \<noteq> 0)"
| "truthy (JStr s) = (s \<noteq> [])"
| "truthy (JArr xs) = (xs \<noteq> [])"
| "truthy (JObj kvs) = (kvs \<noteq> [])"

definition quoted :: "string \<Rightarrow> string" where
  "quoted s = [CHR 0x27] @ s @ [CHR 0x27]"

text \<open>\<^verbatim>\<open>d.get(k, default)\<close> on a dict, and \<^verbatim>\<open>x.get(k, default)\<close> on any value: only a dict has the method.\<close>

definition dict_get :: "(string \<times> json) list \<Rightarrow> string \<Rightarrow> json \<Rightarrow> json" where
  "dict_get kvs k d = (case map_of kvs k of Some v \<Rightarrow> v | None \<Rightarrow> d)"

fun py_get :: "json \<Rightarrow> string \<Rightarrow> json \<Rightarrow> py_error + json" where
  "py_get (JObj kvs) k d = Inr (dict_get kvs k d)"
| "py_get x k d =
     Inl (AttributeError (quoted (type_name x) @ '' object has no attribute '' @ quoted ''get''))"

text \<open>\<^verbatim>\<open>len(x)\<close>.\<close>

fun py_len :: "json \<Rightarrow> py_error + nat" where
  "py_len (JStr s) = Inr (length s)"
| "py_len (JArr xs) = Inr (length xs)"
| "py_len (JObj kvs) = Inr (length kvs)"
| "py_len x = Inl (TypeError (''object of type '' @ quoted (type_name x) @ '' has no len()''))"

text \<open>\<^verbatim>\<open>x[0]\<close>. A dict decoded from JSON has string keys only, so the key \<^verbatim>\<open>0\<close> is missing.\<close>

fun py_index0 :: "json \<Rightarrow> py_error + json" where
  "py_index0 (JArr (x # xs)) = Inr x"
| "py_index0 (JArr []) = Inl (IndexError ''list index out of range'')"
| "py_index0 (JStr (c # cs)) = Inr (JStr [c])"
| "py_index0 (JStr '''') = Inl (IndexError ''string index out of range'')"
| "py_index0 (JObj kvs) = Inl (KeyError ''0'')"
| "py_index0 x = Inl (TypeError (quoted (type_name x) @ '' object is not subscriptable''))"

subsection \<open>Decimal text of integers\<close>

definition digit_char :: "nat \<Rightarrow> char" where
  "digit_char d = ''0123456789abcdef'' ! d"

text \<open>\<^verbatim>\<open>str(n)\<close> of a Python int: its decimal digits, with a minus sign when negative.\<close>

fun decimal :: "nat \<Rightarrow> string" where
  "decimal n = (if 10 \<le> n then decimal (n div 10) else []) @ [digit_char (n mod 10)]"

definition str_int :: "int \<Rightarrow> string" where
  "str_int i = (if 0 \<le> i then decimal (nat i) else CHR ''-'' # decimal (nat (- i)))"

subsection \<open>\<^verbatim>\<open>json.dumps\<close> with its default settings\<close>

text \<open>
  Separators are \<^verbatim>\<open>", "\<close> and \<^verbatim>\<open>": "\<close>; with \<^verbatim>\<open>ensure_ascii\<close> every character outside
  the printable ASCII range is written as \<^verbatim>\<open>\uXXXX\<close>.
\<close>

definition hex4 :: "nat \<Rightarrow> string" where
  "hex4 n = [digit_char (n div 4096 mod 16), digit_char (n div 256 mod 16),
             digit_char (n div 16 mod 16), digit_char (n mod 16)]"

definition escape_char :: "char \<Rightarrow> string" where
  "escape_char c =
     (if c = CHR 0x22 then [CHR 0x5C, CHR 0x22]
      else if c = CHR 0x5C then [CHR 0x5C, CHR 0x5C]
      else if c = CHR 0x0A then [CHR 0x5C, CHR ''n'']
      else if c = CHR 0x0D then [CHR 0x5C, CHR ''r'']
      else if c = CHR 0x09 then [CHR 0x5C, CHR ''t'']
      else if c = CHR 0x08 then [CHR 0x5C, CHR ''b'']
      else if c = CHR 0x0C then [CHR 0x5C, CHR ''f'']
      else if of_char c < (32::nat) \<or> (126::nat) < of_char c
        then [CHR 0x5C, CHR ''u''] @ hex4 (of_char c)
      else [c])"

definition dumps_str :: "string \<Rightarrow> string" where
  "dumps_str s = [CHR 0x22] @ concat (map escape_char s) @ [CHR 0x22]"

fun join_with :: "string \<Rightarrow> string list \<Rightarrow> string" where
  "join_with sep [] = []"
| "join_with sep [x] = x"
| "join_with sep (x # y # ys) = x @ sep @ join_with sep (y # ys)"

fun json_dumps :: "json \<Rightarrow> string"
  and dumps_items :: "json list \<Rightarrow> string list"
  and dumps_pairs :: "(string \<times> json) list \<Rightarrow> string list" where
  "json_dumps JNull = ''null''"
| "json_dumps (JBool b) = (if b then ''true'' else ''false'')"
| "json_dumps (JInt n) = str_int n"
| "json_dumps (JStr s) = dumps_str s"
| "json_dumps (JArr xs) = ''['' @ join_with '', '' (dumps_items xs) @ '']''"
| "json_dumps (JObj kvs) = ''{'' @ join_with '', '' (dumps_pairs kvs) @ ''}''"
| "dumps_items [] = []"
| "dumps_items (x # xs) = json_dumps x # dumps_items xs"
| "dumps_pairs [] = []"
| "dumps_pairs (kv # kvs) = (dumps_str (fst kv) @ '': '' @ json_dumps (snd kv)) # dumps_pairs kvs"

section \<open>Response Normalizer: the extraction step of \<^verbatim>\<open>generate_sse_response\<close>\<close>

text \<open>
  Lines 231--262 of \<^verbatim>\<open>main.py\<close>. \<open>pattern1\<close> is the block under
  \<^verbatim>\<open># Pattern 1: result.artifacts[0].parts[0].text\<close>; it leaves \<^verbatim>\<open>agent_text\<close> at
  \<^verbatim>\<open>None\<close> unless both guards pass. Each later pattern runs only while \<^verbatim>\<open>agent_text\<close>
  is falsy. A result \<open>Inl e\<close> is an exception leaving the block (caught by the handler at
  line 303).
\<close>

definition pattern1 :: "json \<Rightarrow> py_error + json" where
  "pattern1 agent_response =
     ebind (py_get agent_response ''result'' (JObj [])) (\<lambda>result.
     ebind (py_get result ''artifacts'' (JArr [])) (\<lambda>artifacts.
     if \<not> truthy artifacts then Inr JNull else
     ebind (py_len artifacts) (\<lambda>n.
     if \<not> n > 0 then Inr JNull else
     ebind (py_index0 artifacts) (\<lambda>first_artifact.
     ebind (py_get first_artifact ''parts'' (JArr [])) (\<lambda>parts.
     if \<not> truthy parts then Inr JNull else
     ebind (py_len parts) (\<lambda>m.
     if \<not> m > 0 then Inr JNull else
     ebind (py_index0 parts) (\<lambda>part0.
     py_get part0 ''text'' JNull)))))))"

definition pattern2 :: "json \<Rightarrow> json \<Rightarrow> py_error + json" where
  "pattern2 agent_response agent_text =
     (if \<not> truthy agent_text then py_get agent_response ''text'' JNull else Inr agent_text)"

definition pattern3 :: "json \<Rightarrow> json \<Rightarrow> py_error + json" where
  "pattern3 agent_response agent_text =
     (if \<not> truthy agent_text
      then ebind (py_get agent_response ''content'' (JObj [])) (\<lambda>content.
           py_get content ''text'' JNull)
      else Inr agent_text)"

definition pattern4 :: "json \<Rightarrow> json \<Rightarrow> py_error + json" where
  "pattern4 agent_response agent_text =
     (if \<not> truthy agent_text
      then ebind (py_get agent_response ''message'' (JObj [])) (\<lambda>message.
           py_get message ''content'' JNull)
      else Inr agent_text)"

definition pattern5 :: "json \<Rightarrow> json \<Rightarrow> py_error + json" where
  "pattern5 agent_response agent_text =
     (if \<not> truthy agent_text then py_get agent_response ''response'' JNull else Inr agent_text)"

definition no_text_prefix :: string where
  "no_text_prefix = ''Received response but no text field found. Raw response: ''"

definition fallback_text :: "json \<Rightarrow> json \<Rightarrow> json" where
  "fallback_text agent_response agent_text =
     (if \<not> truthy agent_text then JStr (no_text_prefix @ json_dumps agent_response)
      else agent_text)"

definition extractText :: "json \<Rightarrow> py_error + json" where
  "extractText agent_response =
     ebind (pattern1 agent_response) (\<lambda>t1.
     ebind (pattern2 agent_response t1) (\<lambda>t2.
     ebind (pattern3 agent_response t2) (\<lambda>t3.
     ebind (pattern4 agent_response t3) (\<lambda>t4.
     ebind (pattern5 agent_response t4) (\<lambda>t5.
     Inr (fallback_text agent_response t5))))))"

section \<open>In-memory storage\<close>

text \<open>
  The classes of \<^verbatim>\<open>models.py\<close> and the module-level registries of \<^verbatim>\<open>main.py\<close>
  (lines 22 and 51--54). A \<^verbatim>\<open>datetime\<close> is represented by its \<^verbatim>\<open>isoformat()\<close> text.
\<close>

record session =
  sid :: json
  appName :: json
  userId :: json
  createdAt :: string
  events :: "json list"
  state :: json

record eval_case =
  ec_id :: string
  conversation :: "json list"
  sessionInput :: json
  creationTimestamp :: string

record eval_set =
  es_id :: string
  es_name :: string
  cases :: "eval_case list"

record artifact =
  art_id :: string
  art_name :: string
  content :: json
  version :: string
  art_createdAt :: string

text \<open>
  Keys of the \<^verbatim>\<open>sessions\<close> dict. A list or dict is unhashable; \<^verbatim>\<open>True\<close> and \<^verbatim>\<open>1\<close>
  (and \<^verbatim>\<open>False\<close> and \<^verbatim>\<open>0\<close>) are the same key.
\<close>

datatype hashable = HNone | HBool bool | HInt int | HStr string

fun as_hashable :: "json \<Rightarrow> py_error + hashable" where
  "as_hashable JNull = Inr HNone"
| "as_hashable (JBool b) = Inr (HBool b)"
| "as_hashable (JInt n) = Inr (HInt n)"
| "as_hashable (JStr s) = Inr (HStr s)"
| "as_hashable x = Inl (TypeError (''unhashable type: '' @ quoted (type_name x)))"

fun dict_key :: "hashable \<Rightarrow> hashable" where
  "dict_key (HBool b) = HInt (if b then 1 else 0)"
| "dict_key h = h"

text \<open>\<^verbatim>\<open>str(x)\<close>, as the f-string \<^verbatim>\<open>f"context-{session_id}"\<close> takes it.\<close>

fun py_str :: "hashable \<Rightarrow> string" where
  "py_str HNone = ''None''"
| "py_str (HBool b) = (if b then ''True'' else ''False'')"
| "py_str (HInt n) = str_int n"
| "py_str (HStr s) = s"

record server =
  sessions :: "(hashable \<times> session) list"
  eval_sets :: "(string \<times> eval_set) list"
  apps :: "string list"
  artifacts :: "(string \<times> artifact) list"
  REMOTE_AGENT_URL :: string

text \<open>\<^verbatim>\<open>Session(id=..., appName=..., userId=..., createdAt=...)\<close>: no events, empty state.\<close>

definition Session :: "json \<Rightarrow> json \<Rightarrow> json \<Rightarrow> string \<Rightarrow> session" where
  "Session i a u t =
     \<lparr>sid = i, appName = a, userId = u, createdAt = t, events = [], state = JObj []\<rparr>"

text \<open>
  \<^verbatim>\<open>sessions[k] = s\<close>. The handlers mutate the session object they hold, which is the
  one in the dict; the model writes the changed session back under its key.
\<close>

definition put_session :: "hashable \<Rightarrow> session \<Rightarrow> server \<Rightarrow> server" where
  "put_session k s srv = srv\<lparr>sessions := AList.update k s (sessions srv)\<rparr>"

section \<open>The chat operation \<^verbatim>\<open>run_sse\<close>\<close>

text \<open>
  The values a call draws from \<^verbatim>\<open>uuid.uuid4()\<close> and \<^verbatim>\<open>datetime.now()\<close>, one field for
  each place of the source that draws one (named by what it is used for).
\<close>

record draws =
  uuid_user_event :: string
  uuid_request :: string
  uuid_message :: string
  uuid_formatted :: string
  uuid_agent_event :: string
  uuid_parse_fallback :: string
  uuid_status_error :: string
  uuid_connect_fallback :: string
  uuid_unexpected :: string
  now_created :: string
  now_user_event :: string
  now_agent_event :: string
  now_state :: string

text \<open>
  What \<^verbatim>\<open>client.post\<close> does with the envelope: it returns a response (status code, and
  what \<^verbatim>\<open>response.json()\<close> gives: the decoded body or a decoding error), raises an
  \<^verbatim>\<open>httpx.RequestError\<close> (connection failure, timeout), or raises something else.
\<close>

datatype post_outcome =
    Responded int "py_error + json"
  | RaisedRequestError string
  | RaisedOther string

text \<open>The frame every branch builds: \<^verbatim>\<open>{id, author: "model", content: {parts: [{text}]}}\<close>.\<close>

definition model_frame :: "string \<Rightarrow> json \<Rightarrow> json" where
  "model_frame uid text =
     JObj [(''id'', JStr uid), (''author'', JStr ''model''),
           (''content'', JObj [(''parts'', JArr [JObj [(''text'', text)]])])]"

record sse_result =
  frames :: "json list"
  posted :: "json option"
  after :: server

text \<open>Lines 166--177: get or create the session.\<close>

definition get_or_create ::
  "draws \<Rightarrow> server \<Rightarrow> hashable \<Rightarrow> json \<Rightarrow> json \<Rightarrow> json \<Rightarrow> server \<times> session" where
  "get_or_create d srv k session_id app_name user_id =
     (case map_of (sessions srv) k of
        None \<Rightarrow> (let s = Session session_id app_name user_id (now_created d)
                 in (put_session k s srv, s))
      | Some s \<Rightarrow> (srv, s))"

text \<open>Line 201: the text of the envelope's message part.\<close>

definition envelope_text :: "json \<Rightarrow> py_error + json" where
  "envelope_text new_message =
     ebind (py_get new_message ''parts'' JNull) (\<lambda>p.
     if truthy p
     then ebind (py_get new_message ''parts'' (JArr [JObj []])) (\<lambda>ps.
          ebind (py_index0 ps) (\<lambda>part0.
          py_get part0 ''text'' (JStr ''Hello'')))
     else py_get new_message ''text'' (JStr ''Hello''))"

text \<open>Lines 192--211: the Remote Agent Envelope.\<close>

definition agent_request :: "draws \<Rightarrow> hashable \<Rightarrow> json \<Rightarrow> json \<Rightarrow> json \<Rightarrow> json \<Rightarrow> json" where
  "agent_request d h session_id app_name user_id text =
     JObj [(''id'', JStr (''msg-'' @ uuid_request d)),
           (''params'', JObj
              [(''message'', JObj
                  [(''messageId'', JStr (''msg-'' @ uuid_message d)),
                   (''role'', JStr ''user''),
                   (''parts'', JArr [JObj [(''type'', JStr ''text''), (''text'', text)]]),
                   (''contextId'', JStr (''context-'' @ py_str h)),
                   (''sessionId'', session_id)]),
               (''sessionId'', session_id),
               (''appName'', app_name),
               (''userId'', user_id)])]"

text \<open>\<^verbatim>\<open>x[:100]\<close> and \<^verbatim>\<open>x + "..."\<close>. Slicing a dict raises (a \<^verbatim>\<open>KeyError\<close> since Python 3.12).\<close>

fun py_slice100 :: "json \<Rightarrow> py_error + json" where
  "py_slice100 (JStr s) = Inr (JStr (take 100 s))"
| "py_slice100 (JArr xs) = Inr (JArr (take 100 xs))"
| "py_slice100 (JObj kvs) = Inl (KeyError ''slice(None, 100, None)'')"
| "py_slice100 x = Inl (TypeError (quoted (type_name x) @ '' object is not subscriptable''))"

fun py_add_dots :: "json \<Rightarrow> py_error + json" where
  "py_add_dots (JStr s) = Inr (JStr (s @ ''...''))"
| "py_add_dots (JArr xs) =
     Inl (TypeError (''can only concatenate list (not '' @ [CHR 0x22] @ ''str'' @ [CHR 0x22] @ '') to list''))"
| "py_add_dots x =
     Inl (TypeError (''unsupported operand type(s) for +: '' @ quoted (type_name x) @ '' and '' @ quoted ''str''))"

text \<open>Line 297: \<^verbatim>\<open>agent_text[:100] + "..." if len(agent_text) > 100 else agent_text\<close>.\<close>

definition lastAgentResponse :: "json \<Rightarrow> py_error + json" where
  "lastAgentResponse agent_text =
     ebind (py_len agent_text) (\<lambda>n.
     if n > 100 then ebind (py_slice100 agent_text) py_add_dots else Inr agent_text)"

text \<open>
  Lines 229--318: the inner \<^verbatim>\<open>try\<close> on a decoded 200 response, with its handler. The
  agent event is appended before the state is computed, so an exception in the state
  update leaves the event in the log and the old state in place.
\<close>

definition on_agent_response ::
  "draws \<Rightarrow> server \<Rightarrow> hashable \<Rightarrow> session \<Rightarrow> json \<Rightarrow> json \<Rightarrow> json \<times> server" where
  "on_agent_response d srv k current_session session_id agent_response =
     (case extractText agent_response of
        Inl parse_error \<Rightarrow>
          (model_frame (uuid_parse_fallback d)
             (JStr (''Error parsing response: '' @ str_of_error parse_error)), srv)
      | Inr agent_text \<Rightarrow>
          (let formatted_response = model_frame (uuid_formatted d) agent_text;
               agent_event = JObj
                 [(''id'', JStr (uuid_agent_event d)),
                  (''timestamp'', JStr (now_agent_event d)),
                  (''type'', JStr ''agent_response''),
                  (''role'', JStr ''assistant''),
                  (''content'', JObj [(''parts'', JArr [JObj [(''text'', agent_text)]])]),
                  (''sessionId'', session_id),
                  (''rawResponse'', agent_response)];
               s1 = current_session\<lparr>events := events current_session @ [agent_event]\<rparr>
           in case lastAgentResponse agent_text of
                Inl parse_error \<Rightarrow>
                  (model_frame (uuid_parse_fallback d)
                     (JStr (''Error parsing response: '' @ str_of_error parse_error)),
                   put_session k s1 srv)
              | Inr shown \<Rightarrow>
                  (formatted_response,
                   put_session k
                     (s1\<lparr>state := JObj
                        [(''lastActivity'', JStr (now_state d)),
                         (''messageCount'', JInt (int (length (events s1)))),
                         (''lastAgentResponse'', shown)]\<rparr>) srv)))"

definition unexpected_frame :: "draws \<Rightarrow> string \<Rightarrow> json" where
  "unexpected_frame d msg = model_frame (uuid_unexpected d) (JStr (''Unexpected error: '' @ msg))"

definition connect_frame :: "draws \<Rightarrow> json" where
  "connect_frame d = model_frame (uuid_connect_fallback d)
     (JStr ''Could not connect to remote agent. Please check if the agent is running on port 8080.'')"

definition status_frame :: "draws \<Rightarrow> int \<Rightarrow> json" where
  "status_frame d status_code =
     model_frame (uuid_status_error d) (JStr (''Agent error: '' @ str_int status_code))"

text \<open>
  Lines 153--364. \<open>post\<close> is the remote agent as seen through \<^verbatim>\<open>client.post\<close>. The
  result holds the frames the generator yields, the envelope posted (if the call was
  reached) and the storage afterwards.
\<close>

definition run_sse ::
  "draws \<Rightarrow> (json \<Rightarrow> post_outcome) \<Rightarrow> server \<Rightarrow> (string \<times> json) list \<Rightarrow> sse_result" where
  "run_sse d post srv request =
     (let app_name = dict_get request ''appName'' (JStr ''unknown'');
          user_id = dict_get request ''userId'' (JStr ''unknown'');
          session_id = dict_get request ''sessionId'' (JStr ''unknown'');
          new_message = dict_get request ''newMessage'' (JObj [])
      in case as_hashable session_id of
           Inl e \<Rightarrow> \<lparr>frames = [unexpected_frame d (str_of_error e)], posted = None, after = srv\<rparr>
         | Inr h \<Rightarrow>
          (let k = dict_key h;
               (srv1, s0) = get_or_create d srv k session_id app_name user_id;
               user_event = JObj
                 [(''id'', JStr (uuid_user_event d)),
                  (''timestamp'', JStr (now_user_event d)),
                  (''type'', JStr ''user_message''),
                  (''role'', JStr ''user''),
                  (''content'', new_message),
                  (''sessionId'', session_id)];
               current_session = s0\<lparr>events := events s0 @ [user_event]\<rparr>;
               srv2 = put_session k current_session srv1
           in case envelope_text new_message of
                Inl e \<Rightarrow>
                  \<lparr>frames = [unexpected_frame d (str_of_error e)], posted = None, after = srv2\<rparr>
              | Inr text \<Rightarrow>
                 (let req = agent_request d h session_id app_name user_id text
                  in case post req of
                       RaisedRequestError msg \<Rightarrow>
                         \<lparr>frames = [connect_frame d], posted = Some req, after = srv2\<rparr>
                     | RaisedOther msg \<Rightarrow>
                         \<lparr>frames = [unexpected_frame d msg], posted = Some req, after = srv2\<rparr>
                     | Responded status_code body \<Rightarrow>
                         if status_code = 200
                         then (case body of
                                 Inl e \<Rightarrow>
                                   \<lparr>frames = [unexpected_frame d (str_of_error e)],
                                    posted = Some req, after = srv2\<rparr>
                               | Inr agent_response \<Rightarrow>
                                  (let (frame, srv3) =
                                         on_agent_response d srv2 k current_session
                                           session_id agent_response
                                   in \<lparr>frames = [frame], posted = Some req, after = srv3\<rparr>))
                         else \<lparr>frames = [status_frame d status_code],
                               posted = Some req, after = srv2\<rparr>)))"

section \<open>Session management endpoints\<close>

datatype http_exception = HTTPException int string

definition session_json :: "session \<Rightarrow> json" where
  "session_json s =
     JObj [(''id'', sid s), (''appName'', appName s), (''userId'', userId s),
           (''createdAt'', JStr (createdAt s)), (''events'', JArr (events s)),
           (''state'', state s)]"

text \<open>
  Lines 367--379; \<open>uuid4\<close> and \<open>now\<close> are the values the call draws from
  \<^verbatim>\<open>uuid.uuid4()\<close> and \<^verbatim>\<open>datetime.now()\<close>. Path parameters are strings.
\<close>

definition create_session :: "string \<Rightarrow> string \<Rightarrow> server \<Rightarrow> string \<Rightarrow> string \<Rightarrow> json \<times> server" where
  "create_session uuid4 now srv app_name user_id =
     (JObj [(''sessionId'', JStr uuid4), (''status'', JStr ''created'')],
      put_session (HStr uuid4) (Session (JStr uuid4) (JStr app_name) (JStr user_id) now) srv)"

text \<open>
  Lines 397--435 and 437--449. Each handler returns its response or the \<^verbatim>\<open>HTTPException\<close>
  it raises, together with the storage it leaves behind.
\<close>

definition get_session ::
  "string \<Rightarrow> string \<Rightarrow> server \<Rightarrow> string \<Rightarrow> string \<Rightarrow> string \<Rightarrow> (http_exception + json) \<times> server" where
  "get_session uuid4 now srv app_name user_id session_id =
     (if session_id \<in> set [''undefined'', ''null'', '''']
      then (let s = Session (JStr uuid4) (JStr app_name) (JStr user_id) now
            in (Inr (session_json s), put_session (HStr uuid4) s srv))
      else case map_of (sessions srv) (HStr session_id) of
             None \<Rightarrow> (Inl (HTTPException 404 ''Session not found''), srv)
           | Some s \<Rightarrow>
               if userId s \<noteq> JStr user_id \<or> appName s \<noteq> JStr app_name
               then (Inl (HTTPException 403 ''Access denied''), srv)
               else (Inr (session_json s), srv))"

definition delete_session ::
  "server \<Rightarrow> string \<Rightarrow> string \<Rightarrow> string \<Rightarrow> (http_exception + json) \<times> server" where
  "delete_session srv app_name user_id session_id =
     (case map_of (sessions srv) (HStr session_id) of
        None \<Rightarrow> (Inl (HTTPException 404 ''Session not found''), srv)
      | Some s \<Rightarrow>
          if userId s \<noteq> JStr user_id \<or> appName s \<noteq> JStr app_name
          then (Inl (HTTPException 403 ''Access denied''), srv)
          else (Inr (JObj [(''status'', JStr ''deleted'')]),
                srv\<lparr>sessions := AList.delete (HStr session_id) (sessions srv)\<rparr>))"

section \<open>Evaluation endpoints\<close>

text \<open>Lines 466--473: the comprehension runs over \<^verbatim>\<open>eval_sets.values()\<close>.\<close>

definition eval_set_summary :: "eval_set \<Rightarrow> json" where
  "eval_set_summary es =
     JObj [(''id'', JStr (es_id es)), (''name'', JStr (es_name es)),
           (''caseCount'', JInt (int (length (cases es))))]"

definition get_eval_sets :: "server \<Rightarrow> string \<Rightarrow> json" where
  "get_eval_sets srv app_name =
     JObj [(''evalSets'', JArr (map (\<lambda>kv. eval_set_summary (snd kv)) (eval_sets srv)))]"

text \<open>Lines 475--480.\<close>

definition create_eval_set :: "server \<Rightarrow> string \<Rightarrow> string \<Rightarrow> json \<times> server" where
  "create_eval_set srv app_name eval_set_id =
     (JObj [(''status'', JStr ''created''), (''evalSetId'', JStr eval_set_id)],
      srv\<lparr>eval_sets := AList.update eval_set_id
             \<lparr>es_id = eval_set_id, es_name = eval_set_id, cases = []\<rparr> (eval_sets srv)\<rparr>)"

text \<open>\<^verbatim>\<open>EvalCase.dict()\<close> and lines 482--489.\<close>

definition eval_case_dict :: "eval_case \<Rightarrow> json" where
  "eval_case_dict c =
     JObj [(''id'', JStr (ec_id c)), (''conversation'', JArr (conversation c)),
           (''sessionInput'', sessionInput c),
           (''creationTimestamp'', JStr (creationTimestamp c))]"

definition list_eval_cases :: "server \<Rightarrow> string \<Rightarrow> string \<Rightarrow> http_exception + json" where
  "list_eval_cases srv app_name eval_set_id =
     (case map_of (eval_sets srv) eval_set_id of
        None \<Rightarrow> Inl (HTTPException 404 ''Eval set not found'')
      | Some es \<Rightarrow> Inr (JObj [(''cases'', JArr (map eval_case_dict (cases es)))]))"

text \<open>Lines 491--495.\<close>

definition add_session_to_eval ::
  "server \<Rightarrow> string \<Rightarrow> string \<Rightarrow> (string \<times> json) list \<Rightarrow> json \<times> server" where
  "add_session_to_eval srv app_name eval_set_id request = (JObj [(''status'', JStr ''added'')], srv)"

section \<open>Initial storage\<close>

text \<open>Lines 22 and 51--54: the registries as the module creates them.\<close>

definition initial_server :: server where
  "initial_server =
     \<lparr>sessions = [], eval_sets = [],
      apps = [''sample-app'', ''demo-agent'', ''test-application''],
      artifacts = [], REMOTE_AGENT_URL = ''http://localhost:8080''\<rparr>"

section \<open>Reference definitions for the statements\<close>

text \<open>Reading a JSON tree leniently: a field of an object, the first element of an array.\<close>

fun jfield :: "string \<Rightarrow> json \<Rightarrow> json option" where
  "jfield k (JObj kvs) = map_of kvs k"
| "jfield k x = None"

fun jfirst :: "json \<Rightarrow> json option" where
  "jfirst (JArr (x # xs)) = Some x"
| "jfirst x = None"

fun is_str :: "json \<Rightarrow> bool" where
  "is_str (JStr s) = True"
| "is_str x = False"


text \<open>The message part text of an envelope: \<^verbatim>\<open>params.message.parts[0].text\<close>.\<close>

definition envelope_part_text :: "json \<Rightarrow> json option" where
  "envelope_part_text req =
     Option.bind (jfield ''params'' req) (\<lambda>params.
     Option.bind (jfield ''message'' params) (\<lambda>message.
     Option.bind (jfield ''parts'' message) (\<lambda>parts.
     Option.bind (jfirst parts) (jfield ''text''))))"

text \<open>
  The spec's rules of the Response Normalizer (section 4.4), each read leniently (a missing
  or ill-typed step means the rule does not match), and the normalizer the spec describes:
  the first rule that yields a non-empty string, else the diagnostic text.
\<close>

definition rule1 :: "json \<Rightarrow> json option" where
  "rule1 j =
     Option.bind (jfield ''result'' j) (\<lambda>result.
     Option.bind (jfield ''artifacts'' result) (\<lambda>artifacts.
     Option.bind (jfirst artifacts) (\<lambda>artifact.
     Option.bind (jfield ''parts'' artifact) (\<lambda>parts.
     Option.bind (jfirst parts) (jfield ''text'')))))"

definition rule2 :: "json \<Rightarrow> json option" where
  "rule2 j = jfield ''text'' j"

definition rule3 :: "json \<Rightarrow> json option" where
  "rule3 j = Option.bind (jfield ''content'' j) (jfield ''text'')"

definition rule4 :: "json \<Rightarrow> json option" where
  "rule4 j = Option.bind (jfield ''message'' j) (jfield ''content'')"

definition rule5 :: "json \<Rightarrow> json option" where
  "rule5 j = jfield ''response'' j"

fun nonempty_string :: "json option \<Rightarrow> string option" where
  "nonempty_string (Some (JStr s)) = (if s = [] then None else Some s)"
| "nonempty_string x = None"

definition extractText_spec :: "json \<Rightarrow> string" where
  "extractText_spec j =
     (case nonempty_string (rule1 j) of Some s \<Rightarrow> s | None \<Rightarrow>
      case nonempty_string (rule2 j) of Some s \<Rightarrow> s | None \<Rightarrow>
      case nonempty_string (rule3 j) of Some s \<Rightarrow> s | None \<Rightarrow>
      case nonempty_string (rule4 j) of Some s \<Rightarrow> s | None \<Rightarrow>
      case nonempty_string (rule5 j) of Some s \<Rightarrow> s | None \<Rightarrow>
      no_text_prefix @ json_dumps j)"

text \<open>
  The value a rule gives, \<^verbatim>\<open>None\<close> when it does not match, and the normalizer as the code
  orders it: the value of the first rule that gives a truthy value, of whatever type, else
  the diagnostic text.
\<close>

fun or_null :: "json option \<Rightarrow> json" where
  "or_null (Some v) = v"
| "or_null None = JNull"

definition first_truthy :: "json \<Rightarrow> json" where
  "first_truthy j =
     (if truthy (or_null (rule1 j)) then or_null (rule1 j)
      else if truthy (or_null (rule2 j)) then or_null (rule2 j)
      else if truthy (or_null (rule3 j)) then or_null (rule3 j)
      else if truthy (or_null (rule4 j)) then or_null (rule4 j)
      else if truthy (or_null (rule5 j)) then or_null (rule5 j)
      else JStr (no_text_prefix @ json_dumps j))"

text \<open>
  Responses on which every probe that the extraction executes can read its value. The
  response is an object. Rule 1 is always probed: \<^verbatim>\<open>result\<close>, where present, is an object;
  \<^verbatim>\<open>artifacts\<close>, and \<^verbatim>\<open>parts\<close> of the first artifact, where present, are falsy or a list
  whose first element is an object. The top-level \<^verbatim>\<open>text\<close> and \<^verbatim>\<open>response\<close> are read
  whatever they are. \<^verbatim>\<open>content\<close> is probed only while rules 1 and 2 gave nothing truthy, and
  \<^verbatim>\<open>message\<close> only while rules 1 to 3 gave nothing truthy; where probed and present, each is
  an object.
\<close>

fun is_obj :: "json \<Rightarrow> bool" where
  "is_obj (JObj kvs) = True"
| "is_obj x = False"

fun parts_typed :: "json \<Rightarrow> bool" where
  "parts_typed (JArr (JObj part # ps)) = True"
| "parts_typed x = (\<not> truthy x)"

fun artifacts_typed :: "json \<Rightarrow> bool" where
  "artifacts_typed (JArr (JObj artifact # as)) = parts_typed (dict_get artifact ''parts'' (JArr []))"
| "artifacts_typed x = (\<not> truthy x)"

fun result_typed :: "json \<Rightarrow> bool" where
  "result_typed (JObj result) = artifacts_typed (dict_get result ''artifacts'' (JArr []))"
| "result_typed x = False"

fun reads_typed :: "json \<Rightarrow> bool" where
  "reads_typed (JObj kvs) =
     (result_typed (dict_get kvs ''result'' (JObj []))
      \<and> (truthy (or_null (rule1 (JObj kvs))) \<or> truthy (or_null (rule2 (JObj kvs)))
           \<or> (is_obj (dict_get kvs ''content'' (JObj []))
               \<and> (truthy (or_null (rule3 (JObj kvs)))
                    \<or> is_obj (dict_get kvs ''message'' (JObj []))))))"
| "reads_typed x = False"

text \<open>Sample draws and remote agents for concrete runs.\<close>

definition sample_draws :: draws where
  "sample_draws =
     \<lparr>uuid_user_event = ''u-user'', uuid_request = ''u-req'', uuid_message = ''u-msg'',
      uuid_formatted = ''u-frame'', uuid_agent_event = ''u-agent'',
      uuid_parse_fallback = ''u-parse'', uuid_status_error = ''u-status'',
      uuid_connect_fallback = ''u-connect'', uuid_unexpected = ''u-unexpected'',
      now_created = ''t0'', now_user_event = ''t1'', now_agent_event = ''t2'',
      now_state = ''t3''\<rparr>"

definition agent_replying :: "json \<Rightarrow> json \<Rightarrow> post_outcome" where
  "agent_replying body req = Responded 200 (Inr body)"

text \<open>
  The storage after one chat turn on the initial storage whose request names the session
  \<^verbatim>\<open>"undefined"\<close>, as a client does that has no session id yet.
\<close>

definition sentinel_chat_server :: server where
  "sentinel_chat_server =
     after (run_sse sample_draws (agent_replying (JObj [(''text'', JStr ''hi'')])) initial_server
       [(''appName'', JStr ''app''), (''userId'', JStr ''alice''),
        (''sessionId'', JStr ''undefined'')])"

section \<open>Properties of the extraction step\<close>

lemma ebind_Inr_iff: "ebind m f = Inr v \<longleftrightarrow> (\<exists>x. m = Inr x \<and> f x = Inr v)"
  by (cases m) auto

lemma py_get_Inr: "py_get x k d = Inr v \<Longrightarrow> \<exists>kvs. x = JObj kvs \<and> v = dict_get kvs k d"
  by (cases x) auto

lemma nonempty_string_falsy: "\<not> truthy v \<Longrightarrow> nonempty_string (Some v) = None"
  by (cases v) auto

lemma jfirst_falsy: "\<not> truthy v \<Longrightarrow> jfirst v = None"
  by (cases v) auto

lemma py_get_leaf:
  "py_get x k JNull = Inr v \<Longrightarrow> nonempty_string (jfield k x) = nonempty_string (Some v)"
  by (cases x) (auto simp: dict_get_def split: option.splits)

lemma guarded_first:
  assumes "(if \<not> truthy xs then Inr JNull
            else ebind (py_len xs) (\<lambda>n. if \<not> n > 0 then Inr JNull else ebind (py_index0 xs) F)) = Inr v"
  shows "(\<not> truthy xs \<and> v = JNull) \<or> (\<exists>x rest. xs = JArr (x # rest) \<and> F x = Inr v)
         \<or> (\<exists>c cs. xs = JStr (c # cs) \<and> F (JStr [c]) = Inr v)"
proof (cases xs)
  case (JStr s) with assms show ?thesis by (cases s) auto
next
  case (JArr ys) with assms show ?thesis by (cases ys) auto
next
  case (JObj kvs) with assms show ?thesis by (cases kvs) auto
qed (use assms in \<open>auto split: if_splits\<close>)

lemma parts_probe:
  assumes "ebind (py_get a ''parts'' (JArr [])) (\<lambda>parts.
     if \<not> truthy parts then Inr JNull else
     ebind (py_len parts) (\<lambda>m.
     if \<not> m > 0 then Inr JNull else
     ebind (py_index0 parts) (\<lambda>part0.
     py_get part0 ''text'' JNull))) = Inr v"
  shows "nonempty_string (Option.bind (jfield ''parts'' a) (\<lambda>parts.
     Option.bind (jfirst parts) (jfield ''text''))) = nonempty_string (Some v)"
proof -
  from assms obtain kvs where a: "a = JObj kvs"
    by (auto simp: ebind_Inr_iff dest!: py_get_Inr)
  let ?ps = "dict_get kvs ''parts'' (JArr [])"
  from assms a have "(if \<not> truthy ?ps then Inr JNull else
     ebind (py_len ?ps) (\<lambda>m. if \<not> m > 0 then Inr JNull else
     ebind (py_index0 ?ps) (\<lambda>part0. py_get part0 ''text'' JNull))) = Inr v"
    by simp
  from guarded_first [OF this] show ?thesis
    unfolding a
    by (auto simp: dict_get_def jfirst_falsy py_get_leaf split: option.splits)
qed

lemma pattern1_rule1:
  assumes "pattern1 j = Inr v"
  shows "nonempty_string (rule1 j) = nonempty_string (Some v)"
proof -
  from assms obtain kvs where j: "j = JObj kvs"
    by (auto simp: pattern1_def ebind_Inr_iff dest!: py_get_Inr)
  from assms j obtain r where r: "dict_get kvs ''result'' (JObj []) = JObj r"
    by (auto simp: pattern1_def ebind_Inr_iff dest!: py_get_Inr)
  let ?as = "dict_get r ''artifacts'' (JArr [])"
  let ?F = "\<lambda>first_artifact. ebind (py_get first_artifact ''parts'' (JArr [])) (\<lambda>parts.
     if \<not> truthy parts then Inr JNull else
     ebind (py_len parts) (\<lambda>m.
     if \<not> m > 0 then Inr JNull else
     ebind (py_index0 parts) (\<lambda>part0.
     py_get part0 ''text'' JNull)))"
  from assms j r have "(if \<not> truthy ?as then Inr JNull else
     ebind (py_len ?as) (\<lambda>m. if \<not> m > 0 then Inr JNull else
     ebind (py_index0 ?as) ?F)) = Inr v"
    by (simp add: pattern1_def)
  from guarded_first [OF this]
  consider "\<not> truthy ?as" "v = JNull" | x rest where "?as = JArr (x # rest)" "?F x = Inr v"
    by (auto simp: ebind_Inr_iff)
  then show ?thesis
  proof cases
    case 1
    with r show ?thesis unfolding j rule1_def
      by (auto simp: dict_get_def jfirst_falsy split: option.splits)
  next
    case 2
    from parts_probe [OF 2(2)] 2(1) r show ?thesis unfolding j rule1_def
      by (auto simp: dict_get_def split: option.splits)
  qed
qed

lemma extractText_truthy: "extractText j = Inr v \<Longrightarrow> truthy v"
  by (auto simp: extractText_def ebind_Inr_iff fallback_text_def no_text_prefix_def split: if_splits)

lemma later_rule:
  assumes "\<not> truthy t"
  shows "pattern2 j t = Inr v \<Longrightarrow> nonempty_string (rule2 j) = nonempty_string (Some v)"
    and "pattern3 j t = Inr v \<Longrightarrow> nonempty_string (rule3 j) = nonempty_string (Some v)"
    and "pattern4 j t = Inr v \<Longrightarrow> nonempty_string (rule4 j) = nonempty_string (Some v)"
    and "pattern5 j t = Inr v \<Longrightarrow> nonempty_string (rule5 j) = nonempty_string (Some v)"
  using assms
  by (auto simp: pattern2_def pattern3_def pattern4_def pattern5_def rule2_def rule3_def
      rule4_def rule5_def ebind_Inr_iff py_get_leaf dict_get_def
      dest!: py_get_Inr split: option.splits)

lemma later_keep:
  assumes "truthy t"
  shows "pattern2 j t = Inr t" "pattern3 j t = Inr t" "pattern4 j t = Inr t" "pattern5 j t = Inr t"
    "fallback_text j t = t"
  using assms by (simp_all add: pattern2_def pattern3_def pattern4_def pattern5_def fallback_text_def)

lemma nonempty_string_truthy: "truthy (JStr s) \<Longrightarrow> nonempty_string (Some (JStr s)) = Some s"
  by simp

lemma extractText_refines:
  assumes "extractText j = Inr (JStr s)"
  shows "s = extractText_spec j"
proof -
  from assms obtain t1 t2 t3 t4 t5 where
    p1: "pattern1 j = Inr t1" and p2: "pattern2 j t1 = Inr t2" and p3: "pattern3 j t2 = Inr t3"
    and p4: "pattern4 j t3 = Inr t4" and p5: "pattern5 j t4 = Inr t5"
    and f: "fallback_text j t5 = JStr s"
    by (auto simp: extractText_def ebind_Inr_iff)
  note r1 = pattern1_rule1 [OF p1]
  show ?thesis
  proof (cases "truthy t1")
    case True
    with p2 p3 p4 p5 f have "t1 = JStr s" by (simp add: later_keep)
    with True r1 show ?thesis by (simp add: extractText_spec_def)
  next
    case f1: False
    note r2 = later_rule(1) [OF f1 p2]
    from f1 r1 have n1: "nonempty_string (rule1 j) = None" by (simp add: nonempty_string_falsy)
    show ?thesis
    proof (cases "truthy t2")
      case True
      with p3 p4 p5 f have "t2 = JStr s" by (simp add: later_keep)
      with True r2 n1 show ?thesis by (simp add: extractText_spec_def)
    next
      case f2: False
      note r3 = later_rule(2) [OF f2 p3]
      from f2 r2 have n2: "nonempty_string (rule2 j) = None" by (simp add: nonempty_string_falsy)
      show ?thesis
      proof (cases "truthy t3")
        case True
        with p4 p5 f have "t3 = JStr s" by (simp add: later_keep)
        with True r3 n1 n2 show ?thesis by (simp add: extractText_spec_def)
      next
        case f3: False
        note r4 = later_rule(3) [OF f3 p4]
        from f3 r3 have n3: "nonempty_string (rule3 j) = None" by (simp add: nonempty_string_falsy)
        show ?thesis
        proof (cases "truthy t4")
          case True
          with p5 f have "t4 = JStr s" by (simp add: later_keep)
          with True r4 n1 n2 n3 show ?thesis by (simp add: extractText_spec_def)
        next
          case f4: False
          note r5 = later_rule(4) [OF f4 p5]
          from f4 r4 have n4: "nonempty_string (rule4 j) = None" by (simp add: nonempty_string_falsy)
          show ?thesis
          proof (cases "truthy t5")
            case True
            with f have "t5 = JStr s" by (simp add: later_keep)
            with True r5 n1 n2 n3 n4 show ?thesis by (simp add: extractText_spec_def)
          next
            case f5: False
            from f5 r5 have n5: "nonempty_string (rule5 j) = None" by (simp add: nonempty_string_falsy)
            from f5 f have "s = no_text_prefix @ json_dumps j" by (simp add: fallback_text_def)
            with n1 n2 n3 n4 n5 show ?thesis by (simp add: extractText_spec_def)
          qed
        qed
      qed
    qed
  qed
qed

lemma bind_jfield_default:
  "G d = None \<Longrightarrow> Option.bind (map_of kvs k) G = G (dict_get kvs k d)"
  by (simp add: dict_get_def split: option.splits)

lemma py_index0_str: "s \<noteq> [] \<Longrightarrow> py_index0 (JStr s) = Inr (JStr [hd s])"
  by (cases s) auto

lemma parts_read:
  assumes "parts_typed ps"
  shows "(if \<not> truthy ps then Inr JNull else
     ebind (py_len ps) (\<lambda>m. if \<not> m > 0 then Inr JNull else
     ebind (py_index0 ps) (\<lambda>part0. py_get part0 ''text'' JNull)))
     = Inr (or_null (Option.bind (jfirst ps) (jfield ''text'')))"
  using assms
  by (induction ps rule: parts_typed.induct) (auto simp: dict_get_def split: option.splits)

lemma parts_raise:
  assumes "\<not> parts_typed ps"
  shows "\<exists>e. (if \<not> truthy ps then Inr JNull else
     ebind (py_len ps) (\<lambda>m. if \<not> m > 0 then Inr JNull else
     ebind (py_index0 ps) (\<lambda>part0. py_get part0 ''text'' JNull))) = Inl e"
  using assms
  by (induction ps rule: parts_typed.induct) (auto simp: py_index0_str)

lemma artifacts_read:
  assumes "artifacts_typed as"
  shows "(if \<not> truthy as then Inr JNull else
     ebind (py_len as) (\<lambda>n. if \<not> n > 0 then Inr JNull else
     ebind (py_index0 as) (\<lambda>first_artifact.
     ebind (py_get first_artifact ''parts'' (JArr [])) (\<lambda>parts.
     if \<not> truthy parts then Inr JNull else
     ebind (py_len parts) (\<lambda>m. if \<not> m > 0 then Inr JNull else
     ebind (py_index0 parts) (\<lambda>part0. py_get part0 ''text'' JNull))))))
     = Inr (or_null (Option.bind (jfirst as) (\<lambda>artifact.
              Option.bind (jfield ''parts'' artifact) (\<lambda>parts.
              Option.bind (jfirst parts) (jfield ''text'')))))"
  using assms
proof (induction as rule: artifacts_typed.induct)
  case (1 artifact as)
  from parts_read [of "dict_get artifact ''parts'' (JArr [])"] 1 show ?case
    by (simp add: bind_jfield_default [where d = "JArr []"])
qed auto

lemma artifacts_raise:
  assumes "\<not> artifacts_typed as"
  shows "\<exists>e. (if \<not> truthy as then Inr JNull else
     ebind (py_len as) (\<lambda>n. if \<not> n > 0 then Inr JNull else
     ebind (py_index0 as) (\<lambda>first_artifact.
     ebind (py_get first_artifact ''parts'' (JArr [])) (\<lambda>parts.
     if \<not> truthy parts then Inr JNull else
     ebind (py_len parts) (\<lambda>m. if \<not> m > 0 then Inr JNull else
     ebind (py_index0 parts) (\<lambda>part0. py_get part0 ''text'' JNull)))))) = Inl e"
  using assms
proof (induction as rule: artifacts_typed.induct)
  case (1 artifact as)
  from parts_raise [of "dict_get artifact ''parts'' (JArr [])"] 1 show ?case by simp
qed (auto simp: py_index0_str)

lemma pattern1_read:
  assumes "result_typed (dict_get kvs ''result'' (JObj []))"
  shows "pattern1 (JObj kvs) = Inr (or_null (rule1 (JObj kvs)))"
proof -
  from assms obtain r where r: "dict_get kvs ''result'' (JObj []) = JObj r"
    and a: "artifacts_typed (dict_get r ''artifacts'' (JArr []))"
    by (cases "dict_get kvs ''result'' (JObj [])") auto
  from artifacts_read [OF a] r show ?thesis
    by (simp add: pattern1_def rule1_def
        bind_jfield_default [where d = "JObj []" and k = "''result''"]
        bind_jfield_default [where d = "JArr []" and k = "''artifacts''"])
qed

lemma pattern1_raise:
  assumes "\<not> result_typed (dict_get kvs ''result'' (JObj []))"
  shows "\<exists>e. pattern1 (JObj kvs) = Inl e"
proof (cases "dict_get kvs ''result'' (JObj [])")
  case (JObj r)
  with assms have "\<not> artifacts_typed (dict_get r ''artifacts'' (JArr []))" by simp
  from artifacts_raise [OF this] JObj show ?thesis by (simp add: pattern1_def)
qed (simp_all add: pattern1_def)

lemma later_read:
  assumes "\<not> truthy t"
  shows "pattern2 (JObj kvs) t = Inr (or_null (rule2 (JObj kvs)))"
    and "pattern5 (JObj kvs) t = Inr (or_null (rule5 (JObj kvs)))"
    and "is_obj (dict_get kvs ''content'' (JObj [])) \<Longrightarrow>
           pattern3 (JObj kvs) t = Inr (or_null (rule3 (JObj kvs)))"
    and "is_obj (dict_get kvs ''message'' (JObj [])) \<Longrightarrow>
           pattern4 (JObj kvs) t = Inr (or_null (rule4 (JObj kvs)))"
    and "\<not> is_obj (dict_get kvs ''content'' (JObj [])) \<Longrightarrow> \<exists>e. pattern3 (JObj kvs) t = Inl e"
    and "\<not> is_obj (dict_get kvs ''message'' (JObj [])) \<Longrightarrow> \<exists>e. pattern4 (JObj kvs) t = Inl e"
proof -
  from assms show "pattern2 (JObj kvs) t = Inr (or_null (rule2 (JObj kvs)))"
    by (auto simp: pattern2_def rule2_def dict_get_def split: option.splits)
  from assms show "pattern5 (JObj kvs) t = Inr (or_null (rule5 (JObj kvs)))"
    by (auto simp: pattern5_def rule5_def dict_get_def split: option.splits)
  from assms show "pattern3 (JObj kvs) t = Inr (or_null (rule3 (JObj kvs)))"
    if "is_obj (dict_get kvs ''content'' (JObj []))"
    using that
    by (cases "dict_get kvs ''content'' (JObj [])")
       (auto simp: pattern3_def rule3_def dict_get_def split: option.splits)
  from assms show "pattern4 (JObj kvs) t = Inr (or_null (rule4 (JObj kvs)))"
    if "is_obj (dict_get kvs ''message'' (JObj []))"
    using that
    by (cases "dict_get kvs ''message'' (JObj [])")
       (auto simp: pattern4_def rule4_def dict_get_def split: option.splits)
  from assms show "\<exists>e. pattern3 (JObj kvs) t = Inl e"
    if "\<not> is_obj (dict_get kvs ''content'' (JObj []))"
    using that by (cases "dict_get kvs ''content'' (JObj [])") (simp_all add: pattern3_def)
  from assms show "\<exists>e. pattern4 (JObj kvs) t = Inl e"
    if "\<not> is_obj (dict_get kvs ''message'' (JObj []))"
    using that by (cases "dict_get kvs ''message'' (JObj [])") (simp_all add: pattern4_def)
qed

lemma extractText_read:
  assumes "reads_typed j"
  shows "extractText j = Inr (first_truthy j)"
proof -
  from assms obtain kvs where j: "j = JObj kvs" by (cases j) auto
  let ?r1 = "or_null (rule1 j)" and ?r2 = "or_null (rule2 j)" and ?r3 = "or_null (rule3 j)"
  let ?r4 = "or_null (rule4 j)" and ?r5 = "or_null (rule5 j)"
  from assms j have p1: "pattern1 j = Inr ?r1" by (simp add: pattern1_read)
  show ?thesis
  proof (cases "truthy ?r1")
    case True
    with p1 show ?thesis by (simp add: extractText_def first_truthy_def later_keep)
  next
    case f1: False
    then have p2: "pattern2 j ?r1 = Inr ?r2" unfolding j by (rule later_read(1))
    show ?thesis
    proof (cases "truthy ?r2")
      case True
      with p1 p2 f1 show ?thesis by (simp add: extractText_def first_truthy_def later_keep)
    next
      case f2: False
      with assms f1 j have c: "is_obj (dict_get kvs ''content'' (JObj []))" by auto
      from later_read(3) [OF f2 c] have p3: "pattern3 j ?r2 = Inr ?r3" by (simp add: j)
      show ?thesis
      proof (cases "truthy ?r3")
        case True
        with p1 p2 p3 f1 f2 show ?thesis by (simp add: extractText_def first_truthy_def later_keep)
      next
        case f3: False
        with assms f1 f2 j have m: "is_obj (dict_get kvs ''message'' (JObj []))" by auto
        from later_read(4) [OF f3 m] have p4: "pattern4 j ?r3 = Inr ?r4" by (simp add: j)
        show ?thesis
        proof (cases "truthy ?r4")
          case True
          with p1 p2 p3 p4 f1 f2 f3 show ?thesis
            by (simp add: extractText_def first_truthy_def later_keep)
        next
          case f4: False
          then have p5: "pattern5 j ?r4 = Inr ?r5" unfolding j by (rule later_read(2))
          with p1 p2 p3 p4 f1 f2 f3 f4 show ?thesis
            by (simp add: extractText_def first_truthy_def fallback_text_def)
        qed
      qed
    qed
  qed
qed

lemma extractText_raise:
  assumes "\<not> reads_typed j"
  shows "\<exists>e. extractText j = Inl e"
proof (cases j)
  case (JObj kvs)
  let ?r1 = "or_null (rule1 j)" and ?r2 = "or_null (rule2 j)" and ?r3 = "or_null (rule3 j)"
  show ?thesis
  proof (cases "result_typed (dict_get kvs ''result'' (JObj []))")
    case False
    from pattern1_raise [OF this] JObj show ?thesis by (auto simp: extractText_def)
  next
    case True
    then have p1: "pattern1 j = Inr ?r1" by (simp add: pattern1_read JObj)
    from assms True JObj have f1: "\<not> truthy ?r1" and f2: "\<not> truthy ?r2" by auto
    from f1 have p2: "pattern2 j ?r1 = Inr ?r2" unfolding JObj by (rule later_read(1))
    show ?thesis
    proof (cases "is_obj (dict_get kvs ''content'' (JObj []))")
      case False
      from later_read(5) [OF f2 False] p1 p2 show ?thesis by (auto simp: extractText_def JObj)
    next
      case c: True
      from later_read(3) [OF f2 c] have p3: "pattern3 j ?r2 = Inr ?r3" by (simp add: JObj)
      from assms True c JObj have f3: "\<not> truthy ?r3"
        and m: "\<not> is_obj (dict_get kvs ''message'' (JObj []))" by auto
      from later_read(6) [OF f3 m] p1 p2 p3 show ?thesis by (auto simp: extractText_def JObj)
    qed
  qed
qed (simp_all add: extractText_def pattern1_def)

section \<open>Properties of the chat operation\<close>


lemma lastAgentResponse_Inr:
  assumes "lastAgentResponse v = Inr shown"
  shows "shown = (case v of JStr t \<Rightarrow> JStr (if 100 < length t then take 100 t @ ''...'' else t)
                  | x \<Rightarrow> x)"
  using assms by (cases v) (auto simp: lastAgentResponse_def split: if_splits)

lemma map_of_put_session: "map_of (sessions (put_session k s srv)) k = Some s"
  by (simp add: put_session_def update_conv')



lemma envelope_part_text_agent_request:
  "envelope_part_text (agent_request d h session_id app_name user_id t) = Some t"
  by (simp add: envelope_part_text_def agent_request_def)

lemma run_sse_posted:
  assumes "posted (run_sse d post srv request) = Some req"
  shows "\<exists>h t. as_hashable (dict_get request ''sessionId'' (JStr ''unknown'')) = Inr h
           \<and> envelope_text (dict_get request ''newMessage'' (JObj [])) = Inr t
           \<and> req = agent_request d h (dict_get request ''sessionId'' (JStr ''unknown''))
                     (dict_get request ''appName'' (JStr ''unknown''))
                     (dict_get request ''userId'' (JStr ''unknown'')) t"
  using assms
  by (auto simp: run_sse_def Let_def split_def
      split: sum.splits post_outcome.splits if_splits)

lemma envelope_text_parts:
  assumes "dict_get nm ''parts'' JNull = JArr (JObj p # ps)"
  shows "envelope_text (JObj nm) = Inr (dict_get p ''text'' (JStr ''Hello''))"
proof -
  from assms have "map_of nm ''parts'' = Some (JArr (JObj p # ps))"
    by (auto simp: dict_get_def split: option.splits)
  then show ?thesis by (simp add: envelope_text_def dict_get_def)
qed

lemma envelope_text_no_parts:
  assumes "\<not> truthy (dict_get nm ''parts'' JNull)"
  shows "envelope_text (JObj nm) = Inr (dict_get nm ''text'' (JStr ''Hello''))"
  using assms by (simp add: envelope_text_def)

lemma get_or_create_lookup:
  assumes "get_or_create d srv k session_id app_name user_id = (srv1, s0)"
  shows "map_of (sessions srv1) k = Some s0"
    and "sid s0 = (case map_of (sessions srv) k of None \<Rightarrow> session_id | Some s \<Rightarrow> sid s)"
  using assms
  by (auto simp: get_or_create_def Let_def map_of_put_session Session_def split: option.splits)

lemma on_agent_response_session:
  "\<exists>s. map_of (sessions (snd (on_agent_response d (put_session k cur srv) k cur session_id resp))) k = Some s
       \<and> sid s = sid cur"
  by (auto simp: on_agent_response_def Let_def map_of_put_session split: sum.splits)

lemma run_sse_session:
  assumes "as_hashable (dict_get request ''sessionId'' (JStr ''unknown'')) = Inr h"
  shows "\<exists>s. map_of (sessions (after (run_sse d post srv request))) (dict_key h) = Some s
           \<and> sid s = (case map_of (sessions srv) (dict_key h) of
                         None \<Rightarrow> dict_get request ''sessionId'' (JStr ''unknown'')
                       | Some s0 \<Rightarrow> sid s0)"
proof -
  let ?sid = "dict_get request ''sessionId'' (JStr ''unknown'')"
  obtain srv1 s0 where g: "get_or_create d srv (dict_key h) ?sid
      (dict_get request ''appName'' (JStr ''unknown''))
      (dict_get request ''userId'' (JStr ''unknown'')) = (srv1, s0)"
    by (cases "get_or_create d srv (dict_key h) ?sid
      (dict_get request ''appName'' (JStr ''unknown''))
      (dict_get request ''userId'' (JStr ''unknown''))") blast
  note s0 = get_or_create_lookup(2) [OF g]
  let ?cur = "s0\<lparr>events := events s0 @ [JObj
                 [(''id'', JStr (uuid_user_event d)),
                  (''timestamp'', JStr (now_user_event d)),
                  (''type'', JStr ''user_message''),
                  (''role'', JStr ''user''),
                  (''content'', dict_get request ''newMessage'' (JObj [])),
                  (''sessionId'', ?sid)]]\<rparr>"
  from on_agent_response_session [of d "dict_key h" ?cur srv1 ?sid] assms g s0
  show ?thesis
    by (auto simp: run_sse_def Let_def split_def map_of_put_session
        split: sum.splits post_outcome.splits prod.splits)
qed

lemma on_agent_response_success:
  assumes "extractText resp = Inr t" and "lastAgentResponse t = Inr shown"
  shows "\<exists>s. map_of (sessions (snd (on_agent_response d srv k cur session_id resp))) k = Some s
       \<and> state s = JObj [(''lastActivity'', JStr (now_state d)),
                         (''messageCount'', JInt (int (length (events s)))),
                         (''lastAgentResponse'', shown)]"
  using assms by (simp add: on_agent_response_def Let_def map_of_put_session)

lemma run_sse_state:
  assumes "as_hashable (dict_get request ''sessionId'' (JStr ''unknown'')) = Inr h"
    and "posted (run_sse d post srv request) = Some req"
    and "post req = Responded 200 (Inr agent_response)"
    and "extractText agent_response = Inr agent_text"
    and "lastAgentResponse agent_text = Inr shown"
  shows "\<exists>s. map_of (sessions (after (run_sse d post srv request))) (dict_key h) = Some s
           \<and> state s = JObj [(''lastActivity'', JStr (now_state d)),
                             (''messageCount'', JInt (int (length (events s)))),
                             (''lastAgentResponse'', shown)]"
proof -
  from run_sse_posted [OF assms(2)] assms(1) obtain t where
    t: "envelope_text (dict_get request ''newMessage'' (JObj [])) = Inr t"
    and req: "req = agent_request d h (dict_get request ''sessionId'' (JStr ''unknown''))
                     (dict_get request ''appName'' (JStr ''unknown''))
                     (dict_get request ''userId'' (JStr ''unknown'')) t"
    by auto
  from assms(1,3) t req on_agent_response_success [OF assms(4,5)] show ?thesis
    by (simp add: run_sse_def Let_def split_def)
qed




lemmas rule_defs = rule1_def rule2_def rule3_def rule4_def rule5_def dict_get_def

lemmas run_defs =
  run_sse_def Let_def dict_get_def get_or_create_def put_session_def Session_def
  envelope_text_def agent_request_def on_agent_response_def extractText_def pattern1_def
  pattern2_def pattern3_def pattern4_def pattern5_def fallback_text_def lastAgentResponse_def
  model_frame_def unexpected_frame_def connect_frame_def status_frame_def
  initial_server_def sample_draws_def agent_replying_def

lemma sentinel_chat_sessions:
  "sessions sentinel_chat_server =
     [(HStr ''undefined'',
       \<lparr>sid = JStr ''undefined'', appName = JStr ''app'', userId = JStr ''alice'',
        createdAt = ''t0'',
        events =
          [JObj [(''id'', JStr ''u-user''), (''timestamp'', JStr ''t1''),
                 (''type'', JStr ''user_message''), (''role'', JStr ''user''),
                 (''content'', JObj []), (''sessionId'', JStr ''undefined'')],
           JObj [(''id'', JStr ''u-agent''), (''timestamp'', JStr ''t2''),
                 (''type'', JStr ''agent_response''), (''role'', JStr ''assistant''),
                 (''content'', JObj [(''parts'', JArr [JObj [(''text'', JStr ''hi'')]])]),
                 (''sessionId'', JStr ''undefined''),
                 (''rawResponse'', JObj [(''text'', JStr ''hi'')])]],
        state = JObj [(''lastActivity'', JStr ''t3''), (''messageCount'', JInt 2),
                      (''lastAgentResponse'', JStr ''hi'')]\<rparr>)]"
  by (simp add: sentinel_chat_server_def run_defs)

section \<open>The claims\<close>

subsection \<open>C1\<close>

text \<open>
  Claim C1 says that a chat request whose session id is an unset sentinel (\<^verbatim>\<open>""\<close>,
  \<^verbatim>\<open>"undefined"\<close>, \<^verbatim>\<open>"null"\<close>) gets a fresh server-generated id and that the sentinel is
  not used as a key of the session mapping. \<^verbatim>\<open>get_session\<close> treats the sentinels that way
  (lines 400--419), \<^verbatim>\<open>run_sse\<close> does not: for every draw and every behaviour of the remote
  agent, a chat request with a sentinel id that is not yet stored creates a session whose id
  is the sentinel, stored under the sentinel as key.
\<close>

theorem run_sse_stores_sentinel:
  assumes "x \<in> set [''undefined'', ''null'', '''']"
    and "dict_get request ''sessionId'' (JStr ''unknown'') = JStr x"
    and "map_of (sessions srv) (HStr x) = None"
  shows "\<exists>s. map_of (sessions (after (run_sse d post srv request))) (HStr x) = Some s
           \<and> sid s = JStr x"
proof -
  from assms(2) have "as_hashable (dict_get request ''sessionId'' (JStr ''unknown'')) = Inr (HStr x)"
    by simp
  from run_sse_session [OF this, of d post srv] assms(2,3) show ?thesis by simp
qed

theorem run_sse_stores_sentinel_witness:
  "''undefined'' \<in> set [''undefined'', ''null'', '''']
   \<and> dict_get [(''sessionId'', JStr ''undefined'')] ''sessionId'' (JStr ''unknown'') = JStr ''undefined''
   \<and> map_of (sessions initial_server) (HStr ''undefined'') = None
   \<and> (\<exists>s. map_of (sessions (after (run_sse sample_draws (agent_replying (JObj []))
              initial_server [(''sessionId'', JStr ''undefined'')]))) (HStr ''undefined'') = Some s
          \<and> sid s = JStr ''undefined'')"
proof -
  have 1: "''undefined'' \<in> set [''undefined'', ''null'', '''']" by simp
  have 2: "dict_get [(''sessionId'', JStr ''undefined'')] ''sessionId'' (JStr ''unknown'') = JStr ''undefined''"
    by (simp add: dict_get_def)
  have 3: "map_of (sessions initial_server) (HStr ''undefined'') = None"
    by (simp add: initial_server_def)
  from run_sse_stores_sentinel [OF 1 2 3] 1 2 3 show ?thesis by blast
qed

subsection \<open>C2\<close>

text \<open>
  The extraction raises on a response whose \<^verbatim>\<open>result\<close> is a string, and returns a list
  where the top-level \<^verbatim>\<open>text\<close> is a non-empty list.
\<close>

theorem extractText_raises_counterexample:
  "extractText (JObj [(''result'', JStr ''x'')])
     = Inl (AttributeError (quoted ''str'' @ '' object has no attribute '' @ quoted ''get''))
   \<and> extractText (JObj [(''text'', JArr [JInt 1])]) = Inr (JArr [JInt 1])"
  by (simp add: extractText_def pattern1_def pattern2_def pattern3_def pattern4_def pattern5_def
      fallback_text_def dict_get_def)

text \<open>
  Claim C2, amended. For every JSON value the extraction step does one of two things. It
  raises exactly when a probe it executes cannot read its value, that is when the response is
  not \<open>reads_typed\<close>: the response or \<^verbatim>\<open>result\<close> is not an object; \<^verbatim>\<open>artifacts\<close>, or
  \<^verbatim>\<open>parts\<close> of the first artifact, is truthy but not a list whose first element is an
  object; \<^verbatim>\<open>content\<close> is not an object while rules 1 and 2 gave nothing truthy; or
  \<^verbatim>\<open>message\<close> is not an object while rules 1 to 3 gave nothing truthy. The handler of line
  303 then answers with the text \<^verbatim>\<open>Error parsing response: ...\<close> and leaves the storage as
  it was. Otherwise the extraction returns the value of the first rule that gives a truthy
  value, unchanged whatever its type, or the diagnostic text when no rule does; what it
  returns is always truthy. So it returns a non-empty string, without raising, exactly on
  the responses that are \<open>reads_typed\<close> and whose first truthy rule value, if there is
  one, is a string.
\<close>

theorem extractText_outcome:
  "(\<forall>e. extractText j = Inl e \<longrightarrow>
      on_agent_response d srv k current_session session_id j =
        (model_frame (uuid_parse_fallback d)
           (JStr (''Error parsing response: '' @ str_of_error e)), srv))
   \<and> (\<forall>v. extractText j = Inr v \<longrightarrow> truthy v)
   \<and> (\<not> reads_typed j \<longrightarrow> (\<exists>e. extractText j = Inl e))
   \<and> (reads_typed j \<longrightarrow> extractText j = Inr (first_truthy j))
   \<and> ((\<exists>s. s \<noteq> [] \<and> extractText j = Inr (JStr s))
        \<longleftrightarrow> reads_typed j \<and> is_str (first_truthy j))"
proof (intro conjI allI impI)
  fix e assume "extractText j = Inl e"
  then show "on_agent_response d srv k current_session session_id j =
        (model_frame (uuid_parse_fallback d)
           (JStr (''Error parsing response: '' @ str_of_error e)), srv)"
    by (simp add: on_agent_response_def)
next
  fix v assume "extractText j = Inr v"
  then show "truthy v" by (rule extractText_truthy)
next
  assume "\<not> reads_typed j"
  then show "\<exists>e. extractText j = Inl e" by (rule extractText_raise)
next
  assume "reads_typed j"
  then show "extractText j = Inr (first_truthy j)" by (rule extractText_read)
next
  show "(\<exists>s. s \<noteq> [] \<and> extractText j = Inr (JStr s))
        \<longleftrightarrow> reads_typed j \<and> is_str (first_truthy j)"
  proof
    assume "\<exists>s. s \<noteq> [] \<and> extractText j = Inr (JStr s)"
    then obtain s where s: "extractText j = Inr (JStr s)" by blast
    with extractText_raise [of j] have r: "reads_typed j" by auto
    from extractText_read [OF r] s have "first_truthy j = JStr s" by simp
    with r show "reads_typed j \<and> is_str (first_truthy j)" by simp
  next
    assume a: "reads_typed j \<and> is_str (first_truthy j)"
    then obtain s where "first_truthy j = JStr s" by (cases "first_truthy j") auto
    with a extractText_read [of j] have s: "extractText j = Inr (JStr s)" by simp
    from extractText_truthy [OF s] s show "\<exists>s. s \<noteq> [] \<and> extractText j = Inr (JStr s)" by auto
  qed
qed

theorem extractText_outcome_witness:
  "extractText (JObj [(''result'', JNull)])
     = Inl (AttributeError (quoted ''NoneType'' @ '' object has no attribute '' @ quoted ''get''))
   \<and> on_agent_response sample_draws initial_server (HStr ''s'') (Session (JStr ''s'') JNull JNull ''t'')
       (JStr ''s'') (JObj [(''result'', JNull)]) =
     (model_frame ''u-parse''
        (JStr (''Error parsing response: '' @ quoted ''NoneType'' @ '' object has no attribute '' @ quoted ''get'')),
      initial_server)
   \<and> \<not> reads_typed (JObj [(''result'', JObj [(''artifacts'', JInt 3)])])
   \<and> (\<exists>e. extractText (JObj [(''result'', JObj [(''artifacts'', JInt 3)])]) = Inl e)
   \<and> \<not> reads_typed (JObj [(''content'', JArr [])])
   \<and> (\<exists>e. extractText (JObj [(''content'', JArr [])]) = Inl e)
   \<and> reads_typed (JObj [(''text'', JArr [JInt 1])])
   \<and> extractText (JObj [(''text'', JArr [JInt 1])]) = Inr (JArr [JInt 1])
   \<and> truthy (JArr [JInt 1])
   \<and> reads_typed (JObj [(''text'', JStr ''hi''), (''message'', JStr ''x'')])
   \<and> is_str (first_truthy (JObj [(''text'', JStr ''hi''), (''message'', JStr ''x'')]))
   \<and> (\<exists>s. s \<noteq> [] \<and> extractText (JObj [(''text'', JStr ''hi''), (''message'', JStr ''x'')]) = Inr (JStr s))"
proof -
  let ?a = "JObj [(''result'', JNull)]"
  let ?b = "JObj [(''result'', JObj [(''artifacts'', JInt 3)])]"
  let ?c = "JObj [(''content'', JArr [])]"
  let ?l = "JObj [(''text'', JArr [JInt 1])]"
  let ?m = "JObj [(''text'', JStr ''hi''), (''message'', JStr ''x'')]"
  have e1: "extractText ?a
      = Inl (AttributeError (quoted ''NoneType'' @ '' object has no attribute '' @ quoted ''get''))"
    by (simp add: extractText_def pattern1_def dict_get_def)
  from extractText_outcome [where j = ?a and d = sample_draws
      and srv = initial_server and k = "HStr ''s''" and session_id = "JStr ''s''"
      and current_session = "Session (JStr ''s'') JNull JNull ''t''"] e1
  have w1: "on_agent_response sample_draws initial_server (HStr ''s'') (Session (JStr ''s'') JNull JNull ''t'')
       (JStr ''s'') ?a =
     (model_frame ''u-parse''
        (JStr (''Error parsing response: '' @ quoted ''NoneType'' @ '' object has no attribute '' @ quoted ''get'')),
      initial_server)"
    by (simp add: sample_draws_def)
  have nb: "\<not> reads_typed ?b" and nc: "\<not> reads_typed ?c"
    by (simp_all add: rule_defs)
  from extractText_outcome [where j = ?b] nb have w2: "\<exists>e. extractText ?b = Inl e" by blast
  from extractText_outcome [where j = ?c] nc have w3: "\<exists>e. extractText ?c = Inl e" by blast
  have rl: "reads_typed ?l" and fl: "first_truthy ?l = JArr [JInt 1]"
    by (simp_all add: rule_defs first_truthy_def)
  from extractText_outcome [where j = ?l] rl fl
  have w4: "extractText ?l = Inr (JArr [JInt 1])" by metis
  from extractText_outcome [where j = ?l] w4 have w5: "truthy (JArr [JInt 1])" by blast
  have rm: "reads_typed ?m" and fm: "is_str (first_truthy ?m)"
    by (simp_all add: rule_defs first_truthy_def)
  from extractText_outcome [where j = ?m] rm fm
  have w6: "\<exists>s. s \<noteq> [] \<and> extractText ?m = Inr (JStr s)" by blast
  from e1 w1 nb w2 nc w3 rl w4 w5 rm fm w6 show ?thesis by blast
qed

subsection \<open>C3\<close>

text \<open>
  The extraction takes the first rule that yields a truthy value, not the first that yields
  a non-empty string: with a list at \<^verbatim>\<open>text\<close> and a string at \<^verbatim>\<open>response\<close> the rules
  of the spec give the string, the code the list.
\<close>

theorem extractText_order_counterexample:
  "extractText_spec (JObj [(''text'', JArr [JInt 1]), (''response'', JStr ''hi'')]) = ''hi''
   \<and> extractText (JObj [(''text'', JArr [JInt 1]), (''response'', JStr ''hi'')]) = Inr (JArr [JInt 1])"
  by (simp add: extractText_def pattern1_def pattern2_def pattern3_def pattern4_def pattern5_def
      fallback_text_def dict_get_def extractText_spec_def rule1_def rule2_def rule3_def rule4_def
      rule5_def)

text \<open>
  Claim C3, amended. On every response that is \<open>reads_typed\<close> the extraction applies the
  ordered rules \<^verbatim>\<open>result.artifacts[0].parts[0].text\<close>, top-level \<^verbatim>\<open>text\<close>,
  \<^verbatim>\<open>content.text\<close>, \<^verbatim>\<open>message.content\<close>, top-level \<^verbatim>\<open>response\<close> and returns the value
  of the first that yields a truthy value, of whatever type, else the diagnostic text with
  the serialized response; on every other response it raises. Whenever it returns a string,
  which it does exactly when that first truthy value is a string or no rule yields a truthy
  value, the string is the one of the first rule that yields a non-empty string, else the
  diagnostic text. The witness has the three examples of the spec.
\<close>

theorem extractText_rules:
  "(\<forall>s. extractText j = Inr (JStr s) \<longrightarrow> s = extractText_spec j)
   \<and> (reads_typed j \<longrightarrow> extractText j = Inr (first_truthy j))
   \<and> (\<not> reads_typed j \<longrightarrow> (\<exists>e. extractText j = Inl e))
   \<and> (reads_typed j \<and> is_str (first_truthy j) \<longrightarrow>
         extractText j = Inr (JStr (extractText_spec j)))"
proof (intro conjI allI impI)
  fix s assume "extractText j = Inr (JStr s)"
  then show "s = extractText_spec j" by (rule extractText_refines)
next
  assume "reads_typed j"
  then show "extractText j = Inr (first_truthy j)" by (rule extractText_read)
next
  assume "\<not> reads_typed j"
  then show "\<exists>e. extractText j = Inl e" by (rule extractText_raise)
next
  assume a: "reads_typed j \<and> is_str (first_truthy j)"
  then obtain s where "first_truthy j = JStr s" by (cases "first_truthy j") auto
  with a extractText_read [of j] have s: "extractText j = Inr (JStr s)" by simp
  with extractText_refines [OF s] show "extractText j = Inr (JStr (extractText_spec j))" by simp
qed

theorem extractText_rules_witness:
  "extractText (JObj [(''result'', JObj [(''artifacts'',
       JArr [JObj [(''parts'', JArr [JObj [(''text'', JStr ''hi'')]])]])])]) = Inr (JStr ''hi'')
   \<and> extractText (JObj [(''text'', JStr ''hi'')]) = Inr (JStr ''hi'')
   \<and> extractText (JObj []) = Inr (JStr (no_text_prefix @ ''{}''))
   \<and> extractText_spec (JObj [(''response'', JStr ''ok'')]) = ''ok''
   \<and> reads_typed (JObj [(''text'', JArr [JInt 1]), (''response'', JStr ''hi'')])
   \<and> extractText (JObj [(''text'', JArr [JInt 1]), (''response'', JStr ''hi'')]) = Inr (JArr [JInt 1])
   \<and> \<not> reads_typed (JObj [(''message'', JStr ''x''), (''response'', JStr ''hi'')])
   \<and> (\<exists>e. extractText (JObj [(''message'', JStr ''x''), (''response'', JStr ''hi'')]) = Inl e)"
proof -
  let ?a = "JObj [(''result'', JObj [(''artifacts'',
       JArr [JObj [(''parts'', JArr [JObj [(''text'', JStr ''hi'')]])]])])]"
  let ?b = "JObj [(''text'', JStr ''hi'')]"
  let ?c = "JObj [(''response'', JStr ''ok'')]"
  let ?l = "JObj [(''text'', JArr [JInt 1]), (''response'', JStr ''hi'')]"
  let ?x = "JObj [(''message'', JStr ''x''), (''response'', JStr ''hi'')]"
  have "reads_typed ?a \<and> is_str (first_truthy ?a)" "reads_typed ?b \<and> is_str (first_truthy ?b)"
    "reads_typed (JObj []) \<and> is_str (first_truthy (JObj []))"
    by (simp_all add: rule_defs first_truthy_def)
  with extractText_rules [of ?a] extractText_rules [of ?b] extractText_rules [of "JObj []"]
  have "extractText ?a = Inr (JStr (extractText_spec ?a))"
    "extractText ?b = Inr (JStr (extractText_spec ?b))"
    "extractText (JObj []) = Inr (JStr (extractText_spec (JObj [])))"
    by blast+
  moreover have "extractText_spec ?a = ''hi''" "extractText_spec ?b = ''hi''"
    "extractText_spec (JObj []) = no_text_prefix @ ''{}''"
    by (simp_all add: extractText_spec_def rule1_def rule2_def rule3_def rule4_def rule5_def)
  moreover have "extractText ?c = Inr (JStr ''ok'')"
    by (simp add: extractText_def pattern1_def pattern2_def pattern3_def pattern4_def pattern5_def
      fallback_text_def dict_get_def)
  with extractText_rules [of ?c] have "extractText_spec ?c = ''ok''" by simp
  moreover have rl: "reads_typed ?l" and fl: "first_truthy ?l = JArr [JInt 1]"
    by (simp_all add: rule_defs first_truthy_def)
  moreover from extractText_rules [of ?l] rl fl have "extractText ?l = Inr (JArr [JInt 1])"
    by metis
  moreover have nx: "\<not> reads_typed ?x" by (simp add: rule_defs)
  moreover from extractText_rules [of ?x] nx have "\<exists>e. extractText ?x = Inl e" by blast
  ultimately show ?thesis by simp
qed

subsection \<open>C4\<close>

text \<open>
  Claim C4. After a successful agent turn (the remote agent answered 200 with a JSON body,
  and neither the extraction nor the state update raised), the session's state is exactly
  the three-entry mapping of last-activity timestamp, number of events of the session, and
  the extracted text: its first 100 characters followed by \<^verbatim>\<open>...\<close> when it is longer than
  100 characters, the text itself otherwise. The state before the turn does not occur in it.
\<close>

theorem state_snapshot_replaced:
  assumes "as_hashable (dict_get request ''sessionId'' (JStr ''unknown'')) = Inr h"
    and "posted (run_sse d post srv request) = Some req"
    and "post req = Responded 200 (Inr agent_response)"
    and "extractText agent_response = Inr agent_text"
    and "lastAgentResponse agent_text = Inr shown"
  shows "\<exists>s. map_of (sessions (after (run_sse d post srv request))) (dict_key h) = Some s
           \<and> state s = JObj [(''lastActivity'', JStr (now_state d)),
                             (''messageCount'', JInt (int (length (events s)))),
                             (''lastAgentResponse'', shown)]
           \<and> shown = (case agent_text of
                        JStr t \<Rightarrow> JStr (if 100 < length t then take 100 t @ ''...'' else t)
                      | x \<Rightarrow> x)"
  using run_sse_state [OF assms] lastAgentResponse_Inr [OF assms(5)] by blast

theorem state_snapshot_replaced_witness:
  "\<exists>s. map_of (sessions (after (run_sse sample_draws
            (agent_replying (JObj [(''text'', JStr (replicate 250 CHR ''a''))]))
            sentinel_chat_server [(''sessionId'', JStr ''undefined'')]))) (HStr ''undefined'') = Some s
       \<and> state s = JObj [(''lastActivity'', JStr ''t3''),
                         (''messageCount'', JInt (int (length (events s)))),
                         (''lastAgentResponse'', JStr (replicate 100 CHR ''a'' @ ''...''))]"
proof -
  let ?resp = "JObj [(''text'', JStr (replicate 250 CHR ''a''))]"
  let ?request = "[(''sessionId'', JStr ''undefined'')]"
  let ?req = "agent_request sample_draws (HStr ''undefined'') (JStr ''undefined'')
                (JStr ''unknown'') (JStr ''unknown'') (JStr ''Hello'')"
  have 1: "as_hashable (dict_get ?request ''sessionId'' (JStr ''unknown'')) = Inr (HStr ''undefined'')"
    by (simp add: dict_get_def)
  have 2: "posted (run_sse sample_draws (agent_replying ?resp) sentinel_chat_server ?request) = Some ?req"
    by (simp add: run_sse_def Let_def dict_get_def split_def envelope_text_def agent_replying_def
        split: prod.splits)
  have 3: "agent_replying ?resp ?req = Responded 200 (Inr ?resp)"
    by (simp add: agent_replying_def)
  have 4: "extractText ?resp = Inr (JStr (replicate 250 CHR ''a''))"
    by (simp add: extractText_def pattern1_def pattern2_def pattern3_def pattern4_def pattern5_def
        fallback_text_def dict_get_def)
  have 5: "lastAgentResponse (JStr (replicate 250 CHR ''a'')) = Inr (JStr (replicate 100 CHR ''a'' @ ''...''))"
    by (simp add: lastAgentResponse_def)
  from state_snapshot_replaced [OF 1 2 3 4 5] show ?thesis
    by (simp add: sample_draws_def)
qed

subsection \<open>C5\<close>

text \<open>
  A session stored under the id \<^verbatim>\<open>"undefined"\<close> for the user alice: fetching that id as
  bob creates and returns a new session of bob's instead of answering 403.
\<close>

theorem get_session_sentinel_counterexample:
  "map_option userId (map_of (sessions sentinel_chat_server) (HStr ''undefined'')) = Some (JStr ''alice'')
   \<and> fst (get_session ''fresh-id'' ''t9'' sentinel_chat_server ''app'' ''bob'' ''undefined'')
       = Inr (session_json (Session (JStr ''fresh-id'') (JStr ''app'') (JStr ''bob'') ''t9''))"
  by (simp add: sentinel_chat_sessions get_session_def Let_def)

text \<open>
  Claim C5, amended. For every session id that is not an unset sentinel, \<^verbatim>\<open>get_session\<close>
  leaves the storage unchanged and answers 404 when the id is not stored, 403 when the stored
  session's \<^verbatim>\<open>userId\<close> or \<^verbatim>\<open>appName\<close> differs from the requested one, and the full
  session when both match.
\<close>

theorem get_session_checks:
  assumes "session_id \<notin> set [''undefined'', ''null'', '''']"
  shows "get_session uuid4 now srv app_name user_id session_id =
     ((case map_of (sessions srv) (HStr session_id) of
         None \<Rightarrow> Inl (HTTPException 404 ''Session not found'')
       | Some s \<Rightarrow>
           if userId s = JStr user_id \<and> appName s = JStr app_name
           then Inr (session_json s)
           else Inl (HTTPException 403 ''Access denied'')), srv)"
  using assms by (auto simp: get_session_def split: option.splits)

theorem get_session_checks_witness:
  "''s1'' \<notin> set [''undefined'', ''null'', '''']
   \<and> get_session ''u'' ''t'' (snd (create_session ''s1'' ''t0'' initial_server ''app'' ''alice''))
        ''app'' ''bob'' ''s1''
      = (Inl (HTTPException 403 ''Access denied''),
         snd (create_session ''s1'' ''t0'' initial_server ''app'' ''alice''))
   \<and> get_session ''u'' ''t'' (snd (create_session ''s1'' ''t0'' initial_server ''app'' ''alice''))
        ''app'' ''alice'' ''s1''
      = (Inr (session_json (Session (JStr ''s1'') (JStr ''app'') (JStr ''alice'') ''t0'')),
         snd (create_session ''s1'' ''t0'' initial_server ''app'' ''alice''))
   \<and> get_session ''u'' ''t'' initial_server ''app'' ''alice'' ''s1''
      = (Inl (HTTPException 404 ''Session not found''), initial_server)"
proof -
  have 1: "''s1'' \<notin> set [''undefined'', ''null'', '''']" by simp
  let ?srv = "snd (create_session ''s1'' ''t0'' initial_server ''app'' ''alice'')"
  have l: "map_of (sessions ?srv) (HStr ''s1'') =
      Some (Session (JStr ''s1'') (JStr ''app'') (JStr ''alice'') ''t0'')"
    by (simp add: create_session_def map_of_put_session)
  have u: "userId (Session (JStr ''s1'') (JStr ''app'') (JStr ''alice'') ''t0'') = JStr ''alice''"
    "appName (Session (JStr ''s1'') (JStr ''app'') (JStr ''alice'') ''t0'') = JStr ''app''"
    by (simp_all add: Session_def)
  from get_session_checks [OF 1, of "''u''" "''t''" ?srv "''app''" "''bob''"]
    get_session_checks [OF 1, of "''u''" "''t''" ?srv "''app''" "''alice''"]
    get_session_checks [OF 1, of "''u''" "''t''" initial_server "''app''" "''alice''"]
    1 l u
  show ?thesis by (simp add: initial_server_def)
qed

subsection \<open>C6\<close>

text \<open>
  Deleting the session stored under the id \<^verbatim>\<open>"undefined"\<close> succeeds; the following fetch
  of that id answers with a newly created session, not with 404.
\<close>

theorem delete_session_sentinel_counterexample:
  "fst (delete_session sentinel_chat_server ''app'' ''alice'' ''undefined'')
     = Inr (JObj [(''status'', JStr ''deleted'')])
   \<and> fst (get_session ''fresh-id'' ''t9''
            (snd (delete_session sentinel_chat_server ''app'' ''alice'' ''undefined''))
            ''app'' ''alice'' ''undefined'')
       = Inr (session_json (Session (JStr ''fresh-id'') (JStr ''app'') (JStr ''alice'') ''t9''))"
  by (simp add: sentinel_chat_sessions delete_session_def get_session_def Let_def)

text \<open>
  Claim C6, amended. A successful \<^verbatim>\<open>delete_session\<close> removes the id from the session
  mapping, and a following \<^verbatim>\<open>get_session\<close> on the same id answers 404 when the id is not
  an unset sentinel. When \<^verbatim>\<open>delete_session\<close> raises (404 or 403) the storage is unchanged.
\<close>

theorem delete_session_effect:
  "(\<forall>r. fst (delete_session srv app_name user_id session_id) = Inr r \<longrightarrow>
       map_of (sessions (snd (delete_session srv app_name user_id session_id))) (HStr session_id) = None
       \<and> (session_id \<notin> set [''undefined'', ''null'', ''''] \<longrightarrow>
            fst (get_session uuid4 now (snd (delete_session srv app_name user_id session_id))
                   app_name' user_id' session_id)
              = Inl (HTTPException 404 ''Session not found'')))
   \<and> (\<forall>e. fst (delete_session srv app_name user_id session_id) = Inl e \<longrightarrow>
         snd (delete_session srv app_name user_id session_id) = srv
         \<and> (e = HTTPException 404 ''Session not found'' \<or> e = HTTPException 403 ''Access denied''))"
  by (auto simp: delete_session_def get_session_def delete_conv' split: option.splits if_splits)

theorem delete_session_effect_witness:
  "fst (delete_session (snd (create_session ''s1'' ''t0'' initial_server ''app'' ''alice''))
          ''app'' ''alice'' ''s1'') = Inr (JObj [(''status'', JStr ''deleted'')])
   \<and> ''s1'' \<notin> set [''undefined'', ''null'', '''']
   \<and> fst (get_session ''u'' ''t''
        (snd (delete_session (snd (create_session ''s1'' ''t0'' initial_server ''app'' ''alice''))
          ''app'' ''alice'' ''s1'')) ''app'' ''alice'' ''s1'')
       = Inl (HTTPException 404 ''Session not found'')
   \<and> fst (delete_session (snd (create_session ''s1'' ''t0'' initial_server ''app'' ''alice''))
          ''app'' ''bob'' ''s1'') = Inl (HTTPException 403 ''Access denied'')
   \<and> snd (delete_session (snd (create_session ''s1'' ''t0'' initial_server ''app'' ''alice''))
          ''app'' ''bob'' ''s1'') = snd (create_session ''s1'' ''t0'' initial_server ''app'' ''alice'')"
proof -
  let ?srv = "snd (create_session ''s1'' ''t0'' initial_server ''app'' ''alice'')"
  have l: "map_of (sessions ?srv) (HStr ''s1'') =
      Some (Session (JStr ''s1'') (JStr ''app'') (JStr ''alice'') ''t0'')"
    by (simp add: create_session_def map_of_put_session)
  have ok: "fst (delete_session ?srv ''app'' ''alice'' ''s1'') = Inr (JObj [(''status'', JStr ''deleted'')])"
    using l by (simp add: delete_session_def Session_def)
  have no: "fst (delete_session ?srv ''app'' ''bob'' ''s1'') = Inl (HTTPException 403 ''Access denied'')"
    using l by (simp add: delete_session_def Session_def)
  have 1: "''s1'' \<notin> set [''undefined'', ''null'', '''']" by simp
  from delete_session_effect [of ?srv "''app''" "''alice''" "''s1''" "''u''" "''t''" "''app''" "''alice''"]
    delete_session_effect [of ?srv "''app''" "''bob''" "''s1''"] ok no 1
  show ?thesis by simp
qed

subsection \<open>C7\<close>




subsection \<open>C8\<close>

text \<open>
  A request whose \<^verbatim>\<open>newMessage\<close> is \<^verbatim>\<open>{"parts": [{"text": ""}]}\<close> posts an envelope whose
  message part text is the empty string, not \<^verbatim>\<open>Hello\<close>.
\<close>

theorem envelope_empty_text_counterexample:
  "Option.bind (posted (run_sse sample_draws (agent_replying (JObj [])) initial_server
      [(''newMessage'', JObj [(''parts'', JArr [JObj [(''text'', JStr '''')]])])]))
     envelope_part_text = Some (JStr '''')"
  by (simp add: run_defs envelope_part_text_def)

text \<open>
  Claim C8, amended. Whenever an envelope is posted for a request whose \<^verbatim>\<open>newMessage\<close> is
  an object, its message part text is the caller's text where the key is present, also when
  that text is empty, and the literal \<^verbatim>\<open>Hello\<close> only where the key is absent: with a
  non-empty \<^verbatim>\<open>parts\<close> list the key is \<^verbatim>\<open>text\<close> of its first part, with \<^verbatim>\<open>parts\<close>
  absent or falsy it is the top-level \<^verbatim>\<open>text\<close>.
\<close>

theorem envelope_text_from_request:
  assumes "posted (run_sse d post srv request) = Some req"
    and "dict_get request ''newMessage'' (JObj []) = JObj nm"
  shows "(\<forall>p ps. dict_get nm ''parts'' JNull = JArr (JObj p # ps) \<longrightarrow>
            envelope_part_text req = Some (dict_get p ''text'' (JStr ''Hello'')))
       \<and> (\<not> truthy (dict_get nm ''parts'' JNull) \<longrightarrow>
            envelope_part_text req = Some (dict_get nm ''text'' (JStr ''Hello'')))"
proof -
  from run_sse_posted [OF assms(1)] assms(2) obtain h t where
    t: "envelope_text (JObj nm) = Inr t" and "envelope_part_text req = Some t"
    by (auto simp: envelope_part_text_agent_request)
  then show ?thesis
    by (auto simp: envelope_text_parts envelope_text_no_parts)
qed

theorem envelope_text_from_request_witness:
  "envelope_part_text (agent_request sample_draws (HStr ''unknown'') (JStr ''unknown'')
       (JStr ''unknown'') (JStr ''unknown'') (JStr ''Hi there''))
     = Some (JStr ''Hi there'')
   \<and> envelope_part_text (agent_request sample_draws (HStr ''unknown'') (JStr ''unknown'')
       (JStr ''unknown'') (JStr ''unknown'') (JStr ''Hello''))
     = Some (JStr ''Hello'')"
proof -
  let ?post = "agent_replying (JObj [])"
  let ?r1 = "[(''newMessage'', JObj [(''parts'', JArr [JObj [(''text'', JStr ''Hi there'')]])])]"
  let ?r2 = "[(''newMessage'', JObj [(''role'', JStr ''user'')])]"
  have p1: "posted (run_sse sample_draws ?post initial_server ?r1) =
      Some (agent_request sample_draws (HStr ''unknown'') (JStr ''unknown'')
       (JStr ''unknown'') (JStr ''unknown'') (JStr ''Hi there''))"
    by (simp add: run_sse_def Let_def dict_get_def split_def envelope_text_def agent_replying_def)
  have p2: "posted (run_sse sample_draws ?post initial_server ?r2) =
      Some (agent_request sample_draws (HStr ''unknown'') (JStr ''unknown'')
       (JStr ''unknown'') (JStr ''unknown'') (JStr ''Hello''))"
    by (simp add: run_sse_def Let_def dict_get_def split_def envelope_text_def agent_replying_def)
  have n1: "dict_get ?r1 ''newMessage'' (JObj []) = JObj [(''parts'', JArr [JObj [(''text'', JStr ''Hi there'')]])]"
    and n2: "dict_get ?r2 ''newMessage'' (JObj []) = JObj [(''role'', JStr ''user'')]"
    by (simp_all add: dict_get_def)
  from envelope_text_from_request [OF p1 n1] envelope_text_from_request [OF p2 n2]
  show ?thesis by (simp add: dict_get_def)
qed

subsection \<open>C9\<close>

text \<open>
  Claim C9. \<^verbatim>\<open>add_session_to_eval\<close> answers \<^verbatim>\<open>{"status": "added"}\<close> for every app name,
  eval-set id and body, and leaves the whole storage unchanged; the cases and the summaries
  of every eval set read the same afterwards.
\<close>

theorem add_session_to_eval_noop:
  "fst (add_session_to_eval srv app_name eval_set_id request) = JObj [(''status'', JStr ''added'')]
   \<and> snd (add_session_to_eval srv app_name eval_set_id request) = srv
   \<and> list_eval_cases (snd (add_session_to_eval srv app_name eval_set_id request)) app_name' eval_set_id'
       = list_eval_cases srv app_name' eval_set_id'
   \<and> get_eval_sets (snd (add_session_to_eval srv app_name eval_set_id request)) app_name'
       = get_eval_sets srv app_name'"
  by (simp add: add_session_to_eval_def)

theorem add_session_to_eval_noop_witness:
  "fst (add_session_to_eval initial_server ''app'' ''missing-set'' [(''sessionId'', JStr ''s1'')])
     = JObj [(''status'', JStr ''added'')]
   \<and> snd (add_session_to_eval initial_server ''app'' ''missing-set'' [(''sessionId'', JStr ''s1'')])
     = initial_server
   \<and> list_eval_cases (snd (add_session_to_eval initial_server ''app'' ''missing-set''
        [(''sessionId'', JStr ''s1'')])) ''app'' ''missing-set''
     = Inl (HTTPException 404 ''Eval set not found'')"
proof -
  have "list_eval_cases initial_server ''app'' ''missing-set'' = Inl (HTTPException 404 ''Eval set not found'')"
    by (simp add: list_eval_cases_def initial_server_def)
  with add_session_to_eval_noop [of initial_server "''app''" "''missing-set''"
      "[(''sessionId'', JStr ''s1'')]" "''app''" "''missing-set''"]
  show ?thesis by simp
qed

subsection \<open>C10\<close>

text \<open>
  Claim C10. \<^verbatim>\<open>get_eval_sets\<close> answers the same for any two app names: one summary
  \<^verbatim>\<open>{id, name, caseCount}\<close> for each entry of the eval-set mapping, in its order.
\<close>

theorem get_eval_sets_ignores_app:
  "get_eval_sets srv app_name = get_eval_sets srv app_name'
   \<and> get_eval_sets srv app_name
       = JObj [(''evalSets'', JArr (map (\<lambda>kv. eval_set_summary (snd kv)) (eval_sets srv)))]"
  by (simp add: get_eval_sets_def)

theorem get_eval_sets_ignores_app_witness:
  "get_eval_sets (snd (create_eval_set initial_server ''app-a'' ''set1'')) ''app-a''
     = get_eval_sets (snd (create_eval_set initial_server ''app-a'' ''set1'')) ''app-b''
   \<and> get_eval_sets (snd (create_eval_set initial_server ''app-a'' ''set1'')) ''app-b''
     = JObj [(''evalSets'', JArr [JObj [(''id'', JStr ''set1''), (''name'', JStr ''set1''),
                                        (''caseCount'', JInt 0)]])]"
proof -
  let ?srv = "snd (create_eval_set initial_server ''app-a'' ''set1'')"
  note w = get_eval_sets_ignores_app [of ?srv "''app-a''" "''app-b''"]
  have e: "eval_sets ?srv = [(''set1'', \<lparr>es_id = ''set1'', es_name = ''set1'', cases = []\<rparr>)]"
    by (simp add: create_eval_set_def initial_server_def)
  from w have "get_eval_sets ?srv ''app-b''
      = JObj [(''evalSets'', JArr (map (\<lambda>kv. eval_set_summary (snd kv)) (eval_sets ?srv)))]"
    by metis
  then have "get_eval_sets ?srv ''app-b''
     = JObj [(''evalSets'', JArr [JObj [(''id'', JStr ''set1''), (''name'', JStr ''set1''),
                                        (''caseCount'', JInt 0)]])]"
    unfolding e by (simp add: eval_set_summary_def)
  with w show ?thesis by blast
qed

end
